theory Spec2Isabelle
  imports Main "HOL-Library.Sublist"
begin

section \<open>Data model of go-conversions (main.go)\<close>

text \<open>
  Go strings are byte sequences; they are modelled as \<open>string\<close> (a list of 8-bit
  characters), so a non-ASCII glyph is its UTF-8 encoding.
\<close>

record ConversionFailure =
  From :: string
  To :: string

type_synonym ConversionFailures = "ConversionFailure list"

definition Primitives :: "string list" where
  "Primitives =
     [''bool'', ''uint8'', ''uint16'', ''uint32'', ''uint64'',
      ''int8'', ''int16'', ''int32'', ''int64'',
      ''float32'', ''float64'', ''complex64'', ''complex128'',
      ''string'', ''int'', ''uint'', ''uintptr'', ''byte'', ''rune'']"

definition TemplateFile :: string where
  "TemplateFile = ''./template/conversions.tmpl''"

definition OutputFile :: string where
  "OutputFile = ''./output/conversions.go''"

subsection \<open>Errors and panics as values\<close>

text \<open>
  A Go \<open>error\<close> is a value with an \<open>Error()\<close> message. The constructors are the
  errors this program can meet: the two results of a command that ran
  (\<open>*exec.ExitError\<close>, whose message is the process state), the two ways a launch
  fails (\<open>*exec.Error\<close> from the path lookup, \<open>*os.PathError\<close> from fork/exec),
  an I/O or template error given by its message, and \<open>errors.Wrap\<close>.
\<close>

datatype error =
    ExitError nat
  | SignalError string
  | ExecError string string
  | PathError string string string
  | IOError string
  | Wrap error string

datatype runtime_panic = IndexOutOfRange nat nat

text \<open>
  What a call does: it returns a value, returns a non-nil error, or panics.
\<close>

datatype 'a go_result = Value 'a | Error error | Panic runtime_panic

text \<open>\<open>strconv.Itoa\<close> on a non-negative number.\<close>

fun Itoa :: "nat \<Rightarrow> string" where
  "Itoa n = (if n < 10 then [char_of (48 + n)]
             else Itoa (n div 10) @ [char_of (48 + n mod 10)])"

declare Itoa.simps [simp del]

definition Quote :: "string \<Rightarrow> string" where
  \<comment> \<open>\<open>strconv.Quote\<close> on a name that needs no escape\<close>
  "Quote s = CHR 0x22 # s @ [CHR 0x22]"

fun Error_msg :: "error \<Rightarrow> string" where
  "Error_msg (ExitError n) = ''exit status '' @ Itoa n"
| "Error_msg (SignalError sig) = ''signal: '' @ sig"
| "Error_msg (ExecError name cause) = ''exec: '' @ Quote name @ '': '' @ cause"
| "Error_msg (PathError opr path cause) = opr @ '' '' @ path @ '': '' @ cause"
| "Error_msg (IOError msg) = msg"
| "Error_msg (Wrap e msg) = msg @ '': '' @ Error_msg e"

subsection \<open>Contains\<close>

text \<open>
  \<open>func (cfs ConversionFailures) Contains(from, to string) bool\<close>: the loop returns
  true at the first element whose two fields equal the arguments.
\<close>

fun Contains :: "ConversionFailures \<Rightarrow> string \<Rightarrow> string \<Rightarrow> bool" where
  "Contains [] from to = False"
| "Contains (conversionFailure # cfs) from to =
     (if From conversionFailure = from \<and> To conversionFailure = to then True
      else Contains cfs from to)"

subsection \<open>Report\<close>

text \<open>
  The logger is the state: each \<open>logrus.Infof(format, args...)\<close> appends one entry,
  kept as the format string and its arguments.
\<close>

datatype log_entry = Infof string "string list" | Info string | Fatal error

type_synonym log = "log_entry list"

definition check_mark :: string where
  \<comment> \<open>U+2705 in UTF-8\<close>
  "check_mark = [CHR 0xE2, CHR 0x9C, CHR 0x85]"

definition cross_mark :: string where
  \<comment> \<open>U+274C in UTF-8\<close>
  "cross_mark = [CHR 0xE2, CHR 0x9D, CHR 0x8C]"

definition header_format :: string where
  "header_format = ''---------- converting %s values ----------'' @ [CHR 0x0A]"

definition pair_format :: string where
  "pair_format = ''%10s -> %-10s %s ''"

definition compatible :: "ConversionFailures \<Rightarrow> string \<Rightarrow> string \<Rightarrow> string" where
  "compatible cfs outerPrimitive innerPrimitive =
     (if \<not> Contains cfs outerPrimitive innerPrimitive then check_mark else cross_mark)"

text \<open>The inner loop over \<open>Primitives\<close>, for one \<open>outerPrimitive\<close>.\<close>

fun Report_inner :: "ConversionFailures \<Rightarrow> string \<Rightarrow> string list \<Rightarrow> log \<Rightarrow> log" where
  "Report_inner cfs outerPrimitive [] lg = lg"
| "Report_inner cfs outerPrimitive (innerPrimitive # rest) lg =
     Report_inner cfs outerPrimitive rest
       (lg @ [Infof pair_format
                [outerPrimitive, innerPrimitive, compatible cfs outerPrimitive innerPrimitive]])"

text \<open>The outer loop: the header, then the inner loop over the whole catalog.\<close>

fun Report_outer :: "ConversionFailures \<Rightarrow> string list \<Rightarrow> log \<Rightarrow> log" where
  "Report_outer cfs [] lg = lg"
| "Report_outer cfs (outerPrimitive # rest) lg =
     Report_outer cfs rest
       (Report_inner cfs outerPrimitive Primitives
          (lg @ [Infof header_format [outerPrimitive]]))"

definition Report :: "ConversionFailures \<Rightarrow> log \<Rightarrow> log \<times> error option" where
  "Report cfs lg = (Report_outer cfs Primitives lg, None)"

text \<open>The entries a report is made of.\<close>

definition header_entry :: "string \<Rightarrow> log_entry" where
  "header_entry a = Infof header_format [a]"

definition pair_entry :: "string \<Rightarrow> string \<Rightarrow> string \<Rightarrow> log_entry" where
  "pair_entry a b glyph = Infof pair_format [a, b, glyph]"

definition block :: "ConversionFailures \<Rightarrow> string \<Rightarrow> log" where
  "block cfs a = header_entry a # map (\<lambda>b. pair_entry a b (compatible cfs a b)) Primitives"

section \<open>The library functions Compile calls\<close>

subsection \<open>strings.Split and strings.Contains\<close>

text \<open>
  \<open>strings.Split(s, sep)\<close> for a separator of one byte, which is all the source
  passes (a space, a newline): n separators give n + 1 pieces, the empty string one
  empty piece.
\<close>

fun strings_Split :: "string \<Rightarrow> char \<Rightarrow> string list" where
  "strings_Split [] sep = [[]]"
| "strings_Split (c # s) sep =
     (if c = sep then [] # strings_Split s sep
      else (case strings_Split s sep of
              [] \<Rightarrow> [[c]]
            | piece # others \<Rightarrow> (c # piece) # others))"

fun strings_Contains :: "string \<Rightarrow> string \<Rightarrow> bool" where
  "strings_Contains [] substr = (substr = [])"
| "strings_Contains (c # s) substr =
     (prefix substr (c # s) \<or> strings_Contains s substr)"

subsection \<open>regexp: leftmost-first matching of the extraction pattern\<close>

text \<open>
  Go's regexp steps through its input one UTF-8 sequence at a time
  (\<open>utf8.DecodeRuneInString\<close>); a byte that starts no valid sequence is one
  character of width 1.
\<close>

definition byte_in :: "nat \<Rightarrow> nat \<Rightarrow> string \<Rightarrow> nat \<Rightarrow> bool" where
  "byte_in lo hi s i \<longleftrightarrow> i < length s \<and> lo \<le> of_char (s ! i) \<and> of_char (s ! i) \<le> hi"

definition rune_width :: "string \<Rightarrow> nat" where
  "rune_width s =
     (case s of
        [] \<Rightarrow> 0
      | b # _ \<Rightarrow>
          (let c = (of_char b :: nat) in
           if c < 0xC2 then 1
           else if c \<le> 0xDF then (if byte_in 0x80 0xBF s 1 then 2 else 1)
           else if c \<le> 0xEF then
             (if byte_in (if c = 0xE0 then 0xA0 else 0x80) (if c = 0xED then 0x9F else 0xBF) s 1
                 \<and> byte_in 0x80 0xBF s 2 then 3 else 1)
           else if c \<le> 0xF4 then
             (if byte_in (if c = 0xF0 then 0x90 else 0x80) (if c = 0xF4 then 0x8F else 0xBF) s 1
                 \<and> byte_in 0x80 0xBF s 2 \<and> byte_in 0x80 0xBF s 3 then 4 else 1)
           else 1))"

text \<open>
  The compiled pattern is a sequence of instructions: a literal ASCII character, \<open>.\<close>
  (any character but a newline), the greedy \<open>.+\<close>, and the capture marks
  (\<open>Cap (2 * k)\<close> opens group k, \<open>Cap (2 * k + 1)\<close> closes it; group 0 is the whole
  match).
\<close>

datatype inst = Rune char | AnyNotNL | PlusAnyNotNL | Cap nat

type_synonym caps = "nat \<rightharpoonup> nat"

text \<open>
  A backtracking match at one start position: \<open>.+\<close> takes one character and then
  prefers to take more, giving characters back only when the rest of the pattern fails.
  The position is the byte offset of the remaining input in the whole line.
\<close>

fun rmatch :: "inst list \<Rightarrow> string \<Rightarrow> nat \<Rightarrow> caps \<Rightarrow> caps option" where
  "rmatch [] s pos cap = Some cap"
| "rmatch (Cap k # prog) s pos cap = rmatch prog s pos (cap(k \<mapsto> pos))"
| "rmatch (Rune r # prog) [] pos cap = None"
| "rmatch (Rune r # prog) (c # s) pos cap =
     (if c = r then rmatch prog s (pos + 1) cap else None)"
| "rmatch (AnyNotNL # prog) [] pos cap = None"
| "rmatch (AnyNotNL # prog) (c # s) pos cap =
     (if c = CHR 0x0A then None
      else rmatch prog (drop (rune_width (c # s) - 1) s) (pos + rune_width (c # s)) cap)"
| "rmatch (PlusAnyNotNL # prog) [] pos cap = None"
| "rmatch (PlusAnyNotNL # prog) (c # s) pos cap =
     (if c = CHR 0x0A then None
      else (case rmatch (PlusAnyNotNL # prog) (drop (rune_width (c # s) - 1) s)
                   (pos + rune_width (c # s)) cap of
              Some m \<Rightarrow> Some m
            | None \<Rightarrow>
                rmatch prog (drop (rune_width (c # s) - 1) s) (pos + rune_width (c # s)) cap))"

text \<open>The unanchored search: the leftmost start position that matches wins.\<close>

fun find_from :: "inst list \<Rightarrow> string \<Rightarrow> nat \<Rightarrow> caps option" where
  "find_from prog [] pos = rmatch prog [] pos Map.empty"
| "find_from prog (c # s) pos =
     (case rmatch prog (c # s) pos Map.empty of
        Some m \<Rightarrow> Some m
      | None \<Rightarrow> find_from prog (drop (rune_width (c # s) - 1) s) (pos + rune_width (c # s)))"

definition submatch :: "string \<Rightarrow> caps \<Rightarrow> nat \<Rightarrow> string" where
  "submatch s cap k =
     (case (cap (2 * k), cap (2 * k + 1)) of
        (Some b, Some e) \<Rightarrow> take (e - b) (drop b s)
      | _ \<Rightarrow> [])"

definition NumSubexp :: "inst list \<Rightarrow> nat" where
  "NumSubexp prog = length (filter (\<lambda>i. case i of Cap k \<Rightarrow> 2 \<le> k \<and> even k | _ \<Rightarrow> False) prog)"

text \<open>
  \<open>FindStringSubmatch\<close>: the whole match and one string per group, or nil (the empty
  slice) when nothing matches.
\<close>

definition FindStringSubmatch :: "inst list \<Rightarrow> string \<Rightarrow> string list" where
  "FindStringSubmatch prog s =
     (case find_from prog s 0 of
        None \<Rightarrow> []
      | Some cap \<Rightarrow> map (submatch s cap) [0 ..< NumSubexp prog + 1])"

text \<open>\<open>regexp.MustCompile(".+ p.(.+) \\(.+\\) to type (.+)")\<close>\<close>

definition re :: "inst list" where
  "re = [Cap 0, PlusAnyNotNL, Rune CHR '' '', Rune CHR ''p'', AnyNotNL,
         Cap 2, PlusAnyNotNL, Cap 3,
         Rune CHR '' '', Rune CHR ''('', PlusAnyNotNL, Rune CHR '')'']
        @ map Rune '' to type ''
        @ [Cap 4, PlusAnyNotNL, Cap 5, Cap 1]"

subsection \<open>os/exec\<close>

text \<open>
  What happens to the external command: it ran and exited with a status, it was killed
  by a signal, the program was not found on the path, or starting the process failed.
  \<open>cmd.Run()\<close> returns nil for exit status 0 and an error for everything else.
\<close>

datatype proc_outcome =
    Exited nat
  | Signaled string
  | LookPathFailed string
  | StartFailed string string

fun cmd_Run :: "string \<Rightarrow> proc_outcome \<Rightarrow> error option" where
  "cmd_Run prog (Exited n) = (if n = 0 then None else Some (ExitError n))"
| "cmd_Run prog (Signaled sig) = Some (SignalError sig)"
| "cmd_Run prog (LookPathFailed cause) = Some (ExecError prog cause)"
| "cmd_Run prog (StartFailed path cause) = Some (PathError ''fork/exec'' path cause)"

text \<open>Indexing a slice panics out of range.\<close>

definition index :: "'a list \<Rightarrow> nat \<Rightarrow> runtime_panic + 'a" where
  "index xs i = (if i < length xs then Inr (xs ! i) else Inl (IndexOutOfRange i (length xs)))"

section \<open>Compile\<close>

definition command :: string where
  "command = ''go build -gcflags=-e -o /dev/null '' @ OutputFile"

definition pieces :: "string list" where
  "pieces = strings_Split command CHR '' ''"

definition program :: string where
  "program = hd pieces"

definition args :: "string list" where
  "args = drop 1 pieces"

definition marker :: string where
  "marker = ''cannot convert''"

text \<open>The first loop keeps the lines that contain the marker.\<close>

fun conversionErrs_loop :: "string list \<Rightarrow> string list \<Rightarrow> string list" where
  "conversionErrs_loop [] conversionErrs = conversionErrs"
| "conversionErrs_loop (stderrLine # rest) conversionErrs =
     conversionErrs_loop rest
       (if strings_Contains stderrLine marker then conversionErrs @ [stderrLine]
        else conversionErrs)"

text \<open>
  The second loop reads \<open>matches[1]\<close> and \<open>matches[2]\<close> with no check of the match
  result.
\<close>

fun cfs_loop :: "string list \<Rightarrow> ConversionFailures \<Rightarrow> ConversionFailures go_result" where
  "cfs_loop [] cfs = Value cfs"
| "cfs_loop (conversionErr # rest) cfs =
     (case index (FindStringSubmatch re conversionErr) 1 of
        Inl p \<Rightarrow> Panic p
      | Inr from \<Rightarrow>
          (case index (FindStringSubmatch re conversionErr) 2 of
             Inl p \<Rightarrow> Panic p
           | Inr to \<Rightarrow> cfs_loop rest (cfs @ [\<lparr>From = from, To = to\<rparr>])))"

definition extraction :: "string \<Rightarrow> ConversionFailures go_result" where
  "extraction stderrContent =
     cfs_loop (conversionErrs_loop (strings_Split stderrContent CHR 0x0A) []) []"

text \<open>
  \<open>Compile\<close> takes what the world gives it: the outcome of the command and the text
  the command wrote to its standard error.
\<close>

definition Compile :: "proc_outcome \<Rightarrow> string \<Rightarrow> ConversionFailures go_result" where
  "Compile outcome stderrContent =
     (case cmd_Run program outcome of
        None \<Rightarrow> extraction stderrContent
      | Some err \<Rightarrow>
          if Error_msg err \<noteq> ''exit status 2''
          then Error (Wrap err ''unexpected error while running compilation command'')
          else extraction stderrContent)"

section \<open>Generate\<close>

text \<open>
  \<open>Generate\<close> fills a struct with the formatted current time, \<open>os.Args[0]\<close> and the
  catalog, and executes the template on it.
\<close>

record Data =
  Now :: string
  App :: string
  Primitives_field :: "string list"

text \<open>
  The template file is read at run time and is not part of the program. A parsed
  template is modelled for these actions of text/template: literal text, \<open>{{$.Now}}\<close>
  and \<open>{{$.App}}\<close> (outside a range also written \<open>{{.Now}}\<close>, \<open>{{.App}}\<close>),
  \<open>{{$}}\<close> (outside a range also \<open>{{.}}\<close>), which prints the whole struct,
  \<open>{{range $x := $.Primitives}} ... {{end}}\<close>, and the variable of the k-th enclosing
  range (0 the innermost, inside its range also \<open>{{.}}\<close>).
\<close>

datatype node = Text string | FieldNow | FieldApp | Root | Elem nat | Range "node list"

text \<open>
  The parser rejects a variable that is not in scope, so in a parsed template every
  \<open>Elem k\<close> lies inside more than k ranges.
\<close>

fun well_scoped :: "nat \<Rightarrow> node \<Rightarrow> bool" where
  "well_scoped depth (Text s) = True"
| "well_scoped depth FieldNow = True"
| "well_scoped depth FieldApp = True"
| "well_scoped depth Root = True"
| "well_scoped depth (Elem k) = (k < depth)"
| "well_scoped depth (Range body) = list_all (well_scoped (Suc depth)) body"

text \<open>\<open>strings.Join\<close>, and \<open>fmt.Fprint\<close> of the struct: \<open>{Now App [p1 p2 ...]}\<close>.\<close>

fun strings_Join :: "string list \<Rightarrow> string \<Rightarrow> string" where
  "strings_Join [] sep = []"
| "strings_Join [x] sep = x"
| "strings_Join (x # y # ys) sep = x @ sep @ strings_Join (y # ys) sep"

definition Fprint_Data :: "Data \<Rightarrow> string" where
  "Fprint_Data data =
     ''{'' @ Now data @ '' '' @ App data
       @ '' ['' @ strings_Join (Primitives_field data) '' '' @ '']}''"

fun Execute_node :: "Data \<Rightarrow> string list \<Rightarrow> node \<Rightarrow> string" where
  "Execute_node data vars (Text s) = s"
| "Execute_node data vars FieldNow = Now data"
| "Execute_node data vars FieldApp = App data"
| "Execute_node data vars Root = Fprint_Data data"
| "Execute_node data vars (Elem k) = vars ! k"
| "Execute_node data vars (Range body) =
     concat (map (\<lambda>x. concat (map (Execute_node data (x # vars)) body))
               (Primitives_field data))"

definition Execute :: "node list \<Rightarrow> Data \<Rightarrow> string" where
  "Execute t data = concat (map (Execute_node data []) t)"

text \<open>
  The world of one run: what \<open>template.ParseFiles(TemplateFile)\<close> returns (an error,
  or the parsed template), whether \<open>os.Create\<close> succeeds, the formatted clock reading
  \<open>time.Now().Format(time.RFC3339)\<close>, \<open>os.Args[0]\<close>, a write failure of
  \<open>t.Execute\<close> (after how many bytes, with which error), the outcome of the build
  command, its standard error, and the duration that \<open>main\<close> logs.
\<close>

record world =
  ParseFiles :: "error + node list"
  create :: "error option"
  now :: string
  arg0 :: string
  write_fail :: "(nat \<times> error) option"
  build :: proc_outcome
  stderr :: string
  elapsed :: string

text \<open>
  \<open>Generate\<close> returns its error and the content this run left in the output file
  (\<open>None\<close> when the file was not created).
\<close>

definition Generate :: "world \<Rightarrow> error option \<times> string option" where
  "Generate w =
     (case ParseFiles w of
        Inl err \<Rightarrow> (Some (Wrap err (''parsing template file '' @ Quote TemplateFile)), None)
      | Inr t \<Rightarrow>
          (case create w of
             Some err \<Rightarrow> (Some (Wrap err (''creating output file '' @ Quote OutputFile)), None)
           | None \<Rightarrow>
               (let data = \<lparr>Now = now w, App = arg0 w, Primitives_field = Primitives\<rparr> in
                case write_fail w of
                  Some (n, err) \<Rightarrow>
                    (Some (Wrap err ''executing template''), Some (take n (Execute t data)))
                | None \<Rightarrow> (None, Some (Execute t data)))))"

section \<open>Main and main\<close>

definition Main :: "world \<Rightarrow> log \<Rightarrow> unit go_result \<times> log" where
  "Main w lg =
     (case fst (Generate w) of
        Some err \<Rightarrow> (Error (Wrap err ''generating''), lg)
      | None \<Rightarrow>
          (case Compile (build w) (stderr w) of
             Error err \<Rightarrow> (Error (Wrap err ''compiling''), lg)
           | Panic p \<Rightarrow> (Panic p, lg)
           | Value cfs \<Rightarrow>
               (case Report cfs lg of
                  (lg', Some err) \<Rightarrow> (Error (Wrap err ''reporting results''), lg')
                | (lg', None) \<Rightarrow> (Value (), lg'))))"

text \<open>\<open>filepath.Base\<close> on a slash-separated path.\<close>

definition Base :: "string \<Rightarrow> string" where
  "Base path =
     (if path = [] then ''.''
      else (let name = rev (takeWhile (\<lambda>c. c \<noteq> CHR ''/'')
                              (dropWhile (\<lambda>c. c = CHR ''/'') (rev path)))
            in if name = [] then ''/'' else name))"

text \<open>
  \<open>main\<close> gives the exit status of the process with the log: 0 after \<open>done\<close>, 1 from
  \<open>logrus.Fatal\<close> (which exits without running the deferred call), 2 from a panic
  (which runs it).
\<close>

definition main :: "world \<Rightarrow> nat \<times> log" where
  "main w =
     (case Main w [Info ''starting''] of
        (Error err, lg) \<Rightarrow> (1, lg @ [Fatal (Wrap err (Base (arg0 w)))])
      | (Panic p, lg) \<Rightarrow> (2, lg @ [Infof ''execution took %v'' [elapsed w]])
      | (Value u, lg) \<Rightarrow>
          (0, lg @ [Info ''done'', Infof ''execution took %v'' [elapsed w]]))"

section \<open>Notions used to state the properties\<close>

text \<open>The lines of the diagnostic stream that carry the marker, in stream order.\<close>

definition marker_lines :: "string \<Rightarrow> string list" where
  "marker_lines stderrContent =
     filter (\<lambda>stderrLine. strings_Contains stderrLine marker)
       (strings_Split stderrContent CHR 0x0A)"

text \<open>The pair the second loop of \<open>Compile\<close> builds from a line that matches.\<close>

definition extract_pair :: "string \<Rightarrow> ConversionFailure" where
  "extract_pair conversionErr =
     \<lparr>From = FindStringSubmatch re conversionErr ! 1,
      To = FindStringSubmatch re conversionErr ! 2\<rparr>"

text \<open>The outcomes that pass the test \<open>err != nil && err.Error() != "exit status 2"\<close>.\<close>

definition accepted :: "proc_outcome \<Rightarrow> bool" where
  "accepted outcome =
     (case cmd_Run program outcome of
        None \<Rightarrow> True
      | Some err \<Rightarrow> Error_msg err = ''exit status 2'')"

text \<open>
  The report of a failure set, written out: for each type name of the catalog a header,
  then one entry per type name with the cross where the predicate holds of the pair
  and the check mark elsewhere.
\<close>

definition report_of :: "(string \<Rightarrow> string \<Rightarrow> bool) \<Rightarrow> log" where
  "report_of failed =
     concat (map (\<lambda>a. Infof header_format [a]
                       # map (\<lambda>b. Infof pair_format
                                     [a, b, if failed a b then cross_mark else check_mark])
                           Primitives)
               Primitives)"

text \<open>Whether a template prints the clock reading, and whether it prints the program name.\<close>

fun reads_Now :: "node \<Rightarrow> bool" where
  "reads_Now (Text s) = False"
| "reads_Now FieldNow = True"
| "reads_Now FieldApp = False"
| "reads_Now Root = True"
| "reads_Now (Elem k) = False"
| "reads_Now (Range body) = list_ex reads_Now body"

fun reads_App :: "node \<Rightarrow> bool" where
  "reads_App (Text s) = False"
| "reads_App FieldNow = False"
| "reads_App FieldApp = True"
| "reads_App Root = True"
| "reads_App (Elem k) = False"
| "reads_App (Range body) = list_ex reads_App body"

text \<open>
  The output of a template as a word over fixed strings and the clock reading: the
  ranges unrolled over the catalog, everything but the clock reading filled in.
\<close>

datatype atom = Const string | Clock

fun render :: "string \<Rightarrow> atom list \<Rightarrow> string" where
  "render x [] = []"
| "render x (Const s # as) = s @ render x as"
| "render x (Clock # as) = x @ render x as"

fun atoms_node :: "string \<Rightarrow> string list \<Rightarrow> string list \<Rightarrow> node \<Rightarrow> atom list" where
  "atoms_node app prims vars (Text s) = [Const s]"
| "atoms_node app prims vars FieldNow = [Clock]"
| "atoms_node app prims vars FieldApp = [Const app]"
| "atoms_node app prims vars Root =
     [Const ''{'', Clock, Const ('' '' @ app @ '' ['' @ strings_Join prims '' '' @ '']}'')]"
| "atoms_node app prims vars (Elem k) = [Const (vars ! k)]"
| "atoms_node app prims vars (Range body) =
     concat (map (\<lambda>x. concat (map (atoms_node app prims (x # vars)) body)) prims)"

section \<open>Properties of Contains and Report\<close>

lemma Contains_iff:
  "Contains cfs from to \<longleftrightarrow> (\<exists>cf \<in> set cfs. From cf = from \<and> To cf = to)"
  by (induction cfs) auto

lemma length_Primitives: "length Primitives = 19"
  by (simp add: Primitives_def)

lemma distinct_Primitives: "distinct Primitives"
  by (simp add: Primitives_def)

lemma marks_differ: "check_mark \<noteq> cross_mark"
  by (simp add: check_mark_def cross_mark_def)

lemma formats_differ: "header_format \<noteq> pair_format"
  by (simp add: header_format_def pair_format_def)

lemma Report_inner_eq:
  "Report_inner cfs a bs lg = lg @ map (\<lambda>b. pair_entry a b (compatible cfs a b)) bs"
  by (induction bs arbitrary: lg) (simp_all add: pair_entry_def)

lemma Report_outer_eq:
  "Report_outer cfs as lg = lg @ concat (map (block cfs) as)"
  by (induction as arbitrary: lg) (simp_all add: Report_inner_eq block_def header_entry_def)

lemma Report_eq: "fst (Report cfs []) = concat (map (block cfs) Primitives)"
  by (simp add: Report_def Report_outer_eq)

lemma length_block: "length (block cfs a) = 20"
  by (simp add: block_def length_Primitives)

lemma nth_concat_blocks:
  assumes "\<And>x. length (f x) = n" and "i < length xs" and "j < n"
  shows "concat (map f xs) ! (n * i + j) = f (xs ! i) ! j"
  using assms(2)
proof (induction xs arbitrary: i)
  case Nil
  then show ?case by simp
next
  case (Cons x xs)
  show ?case
  proof (cases i)
    case 0
    with assms(1,3) show ?thesis by (simp add: nth_append)
  next
    case (Suc k)
    with Cons.prems have k: "k < length xs" by simp
    have "n * Suc k + j = n + (n * k + j)" by simp
    with Cons.IH [OF k] assms(1) Suc show ?thesis
      by (simp add: nth_append)
  qed
qed

lemma length_concat_blocks:
  assumes "\<And>x. length (f x) = n"
  shows "length (concat (map f xs)) = n * length xs"
  by (induction xs) (simp_all add: assms)

lemma pair_entry_in_Report:
  "pair_entry a b g \<in> set (fst (Report cfs [])) \<longleftrightarrow>
     a \<in> set Primitives \<and> b \<in> set Primitives \<and> g = compatible cfs a b"
  by (auto simp: Report_eq block_def pair_entry_def header_entry_def formats_differ)

section \<open>Properties of Compile\<close>

lemma Itoa_nonempty: "Itoa n \<noteq> []"
  by (subst Itoa.simps) simp

lemma Itoa_eq_2: "Itoa n = ''2'' \<longleftrightarrow> n = 2"
proof (cases "n < 10")
  case True
  then have "Itoa n = [char_of (48 + n)]"
    by (subst Itoa.simps) simp
  moreover have "char_of (48 + n) = CHR ''2'' \<longleftrightarrow> n = 2"
  proof
    assume "char_of (48 + n) = CHR ''2''"
    then have "of_char (char_of (48 + n) :: char) = (of_char CHR ''2'' :: nat)"
      by simp
    with True show "n = 2"
      by (simp add: of_char_of)
  next
    assume "n = 2"
    moreover have "char_of (50 :: nat) = CHR ''2''"
      by code_simp
    ultimately show "char_of (48 + n) = CHR ''2''"
      by simp
  qed
  ultimately show ?thesis by simp
next
  case False
  then have "Itoa n = Itoa (n div 10) @ [char_of (48 + n mod 10)]"
    by (subst Itoa.simps) simp
  with False Itoa_nonempty [of "n div 10"] show ?thesis
    by (cases "Itoa (n div 10)") auto
qed

lemma program_eq: "program = ''go''"
  by (simp add: program_def pieces_def command_def OutputFile_def)

lemma accepted_iff: "accepted outcome \<longleftrightarrow> outcome = Exited 0 \<or> outcome = Exited 2"
  by (cases outcome) (auto simp: accepted_def Itoa_eq_2)

lemma Compile_accepted: "accepted outcome \<Longrightarrow> Compile outcome s = extraction s"
  by (auto simp: Compile_def accepted_def split: option.splits)

lemma Compile_rejected:
  "\<not> accepted outcome \<Longrightarrow>
     \<exists>err. cmd_Run program outcome = Some err \<and>
       Compile outcome s = Error (Wrap err ''unexpected error while running compilation command'')"
  by (auto simp: Compile_def accepted_def split: option.splits)

lemma conversionErrs_loop_eq:
  "conversionErrs_loop ls acc = acc @ filter (\<lambda>l. strings_Contains l marker) ls"
  by (induction ls arbitrary: acc) simp_all

lemma NumSubexp_re: "NumSubexp re = 2"
  by (simp add: NumSubexp_def re_def)

lemma length_FindStringSubmatch:
  "FindStringSubmatch re l \<noteq> [] \<Longrightarrow> length (FindStringSubmatch re l) = 3"
  by (auto simp: FindStringSubmatch_def NumSubexp_re split: option.splits)

lemma cfs_loop_all_match:
  "\<forall>l \<in> set ls. FindStringSubmatch re l \<noteq> [] \<Longrightarrow>
     cfs_loop ls cfs = Value (cfs @ map extract_pair ls)"
proof (induction ls arbitrary: cfs)
  case Nil
  then show ?case by simp
next
  case (Cons l ls)
  then have "length (FindStringSubmatch re l) = 3"
    by (simp add: length_FindStringSubmatch)
  with Cons show ?case
    by (simp add: index_def extract_pair_def)
qed

lemma cfs_loop_unmatched:
  "l \<in> set ls \<Longrightarrow> FindStringSubmatch re l = [] \<Longrightarrow>
     cfs_loop ls cfs = Panic (IndexOutOfRange 1 0)"
proof (induction ls arbitrary: cfs)
  case Nil
  then show ?case by simp
next
  case (Cons x xs)
  show ?case
  proof (cases "FindStringSubmatch re x = []")
    case True
    then show ?thesis by (simp add: index_def)
  next
    case False
    then have len: "length (FindStringSubmatch re x) = 3"
      by (rule length_FindStringSubmatch)
    from False Cons.prems have "l \<in> set xs" by auto
    with Cons.IH Cons.prems(2) len show ?thesis
      by (simp add: index_def)
  qed
qed

lemma extraction_eq:
  "extraction s = cfs_loop (marker_lines s) []"
  by (simp add: extraction_def marker_lines_def conversionErrs_loop_eq)


lemma unmatched_line:
  "FindStringSubmatch re ''x.go:9:6: cannot convert nil to type bool'' = []"
  by code_simp

lemma marker_in_unmatched_line:
  "strings_Contains ''x.go:9:6: cannot convert nil to type bool'' marker"
  by code_simp

lemma split_unmatched_line:
  "strings_Split ''x.go:9:6: cannot convert nil to type bool'' CHR 0x0A
     = [''x.go:9:6: cannot convert nil to type bool'']"
  by code_simp

lemma cfs_loop_not_Error: "cfs_loop ls cfs \<noteq> Error e"
  by (induction ls arbitrary: cfs) (auto simp: index_def split: sum.splits)

lemma extraction_not_Error: "extraction s \<noteq> Error e"
  by (simp add: extraction_def cfs_loop_not_Error)

lemma matched_foo_line:
  "FindStringSubmatch re ''x.go:9:6: cannot convert p.foo (type foo) to type bar''
     = [''x.go:9:6: cannot convert p.foo (type foo) to type bar'', ''foo'', ''bar'']"
  by code_simp

lemma marker_lines_foo_line:
  "marker_lines ''x.go:9:6: cannot convert p.foo (type foo) to type bar''
     = [''x.go:9:6: cannot convert p.foo (type foo) to type bar'']"
  by code_simp

lemma Compile_all_match:
  assumes "accepted outcome"
    and "\<forall>l \<in> set (marker_lines s). FindStringSubmatch re l \<noteq> []"
  shows "Compile outcome s = Value (map extract_pair (marker_lines s))"
  using assms by (simp add: Compile_accepted extraction_eq cfs_loop_all_match)

lemma Compile_unmatched:
  assumes "l \<in> set (strings_Split s CHR 0x0A)" and "strings_Contains l marker"
    and "FindStringSubmatch re l = []"
  shows "accepted outcome \<Longrightarrow> Compile outcome s = Panic (IndexOutOfRange 1 0)"
    and "Compile outcome s \<noteq> Value cfs"
proof -
  from assms(1,2) have "l \<in> set (marker_lines s)"
    by (simp add: marker_lines_def)
  then have p: "extraction s = Panic (IndexOutOfRange 1 0)"
    using assms(3) by (simp add: extraction_eq cfs_loop_unmatched)
  then show "accepted outcome \<Longrightarrow> Compile outcome s = Panic (IndexOutOfRange 1 0)"
    by (simp add: Compile_accepted)
  show "Compile outcome s \<noteq> Value cfs"
  proof (cases "accepted outcome")
    case True
    with p show ?thesis by (simp add: Compile_accepted)
  next
    case False
    from Compile_rejected [OF this, of s] show ?thesis by auto
  qed
qed

lemma ConversionFailure_eq_iff:
  "cf = \<lparr>From = a, To = b\<rparr> \<longleftrightarrow> From cf = a \<and> To cf = b"
  by (cases cf) auto

section \<open>Properties of Report as Main calls it\<close>

lemma Report_append: "Report cfs lg = (lg @ fst (Report cfs []), None)"
  by (simp add: Report_def Report_outer_eq)

lemma Report_report_of: "fst (Report cfs []) = report_of (Contains cfs)"
proof -
  have "block cfs = (\<lambda>a. Infof header_format [a]
      # map (\<lambda>b. Infof pair_format [a, b, if Contains cfs a b then cross_mark else check_mark])
          Primitives)"
    by (rule ext) (simp add: block_def header_entry_def pair_entry_def compatible_def)
  then show ?thesis
    by (simp add: Report_eq report_of_def)
qed

lemma Contains_extracted:
  "Contains (map extract_pair ls) = (\<lambda>a b. \<exists>l \<in> set ls. extract_pair l = \<lparr>From = a, To = b\<rparr>)"
  by (intro ext) (auto simp: Contains_iff ConversionFailure_eq_iff)

lemma pair_in_report_of:
  "Infof pair_format [a, b, g] \<in> set (report_of failed) \<longleftrightarrow>
     a \<in> set Primitives \<and> b \<in> set Primitives
     \<and> g = (if failed a b then cross_mark else check_mark)"
proof
  assume "Infof pair_format [a, b, g] \<in> set (report_of failed)"
  then show "a \<in> set Primitives \<and> b \<in> set Primitives
     \<and> g = (if failed a b then cross_mark else check_mark)"
    by (auto simp: report_of_def formats_differ)
next
  assume r: "a \<in> set Primitives \<and> b \<in> set Primitives
     \<and> g = (if failed a b then cross_mark else check_mark)"
  define row where "row = (\<lambda>a. Infof header_format [a]
      # map (\<lambda>b. Infof pair_format [a, b, if failed a b then cross_mark else check_mark])
          Primitives)"
  from r have "Infof pair_format [a, b, g] \<in> set (row a)"
    by (simp add: row_def image_iff)
  moreover from r have "a \<in> set Primitives"
    by simp
  moreover have "report_of failed = concat (map row Primitives)"
    by (simp add: report_of_def row_def)
  ultimately show "Infof pair_format [a, b, g] \<in> set (report_of failed)"
    by auto
qed



lemma Main_report:
  assumes "fst (Generate w) = None" and "accepted (build w)"
    and "\<forall>l \<in> set (marker_lines (stderr w)). FindStringSubmatch re l \<noteq> []"
  shows "Main w lg = (Value (), lg @ report_of
           (\<lambda>a b. \<exists>l \<in> set (marker_lines (stderr w)). extract_pair l = \<lparr>From = a, To = b\<rparr>))"
proof -
  from assms(2,3)
  have "Compile (build w) (stderr w) = Value (map extract_pair (marker_lines (stderr w)))"
    by (rule Compile_all_match)
  with assms(1) show ?thesis
    using Report_append [of "map extract_pair (marker_lines (stderr w))" lg]
    by (simp add: Main_def Report_report_of Contains_extracted)
qed

lemma main_report:
  assumes "fst (Generate w) = None" and "accepted (build w)"
    and "\<forall>l \<in> set (marker_lines (stderr w)). FindStringSubmatch re l \<noteq> []"
  shows "main w = (0, [Info ''starting''] @ report_of
           (\<lambda>a b. \<exists>l \<in> set (marker_lines (stderr w)). extract_pair l = \<lparr>From = a, To = b\<rparr>)
           @ [Info ''done'', Infof ''execution took %v'' [elapsed w]])"
  using Main_report [OF assms, of "[Info ''starting'']"] by (simp add: main_def)

lemma matched_string_bool_line:
  "FindStringSubmatch re ''a.go:1: cannot convert p.string (type string) to type bool''
     = [''a.go:1: cannot convert p.string (type string) to type bool'', ''string'', ''bool'']"
  by code_simp

lemma matched_bool_int_line:
  "FindStringSubmatch re ''a.go:2: cannot convert p.bool (type bool) to type int''
     = [''a.go:2: cannot convert p.bool (type bool) to type int'', ''bool'', ''int'']"
  by code_simp

lemma marker_lines_bool_int_line:
  "marker_lines ''a.go:2: cannot convert p.bool (type bool) to type int''
     = [''a.go:2: cannot convert p.bool (type bool) to type int'']"
  by code_simp

lemma marker_lines_sample_stream:
  "marker_lines (''# x'' @ [CHR 0x0A]
      @ ''a.go:1: cannot convert p.string (type string) to type bool'' @ [CHR 0x0A]
      @ ''a.go:2: cannot convert p.bool (type bool) to type int'' @ [CHR 0x0A]
      @ ''a.go:1: cannot convert p.string (type string) to type bool'' @ [CHR 0x0A])
   = [''a.go:1: cannot convert p.string (type string) to type bool'',
      ''a.go:2: cannot convert p.bool (type bool) to type int'',
      ''a.go:1: cannot convert p.string (type string) to type bool'']"
  by code_simp

lemma extract_string_bool:
  "extract_pair ''a.go:1: cannot convert p.string (type string) to type bool''
     = \<lparr>From = ''string'', To = ''bool''\<rparr>"
  by (simp add: extract_pair_def matched_string_bool_line)

lemma extract_bool_int:
  "extract_pair ''a.go:2: cannot convert p.bool (type bool) to type int''
     = \<lparr>From = ''bool'', To = ''int''\<rparr>"
  by (simp add: extract_pair_def matched_bool_int_line)

section \<open>Properties of Generate\<close>

lemma render_append: "render x (as @ bs) = render x as @ render x bs"
  by (induction x as rule: render.induct) simp_all

lemma render_concat: "render x (concat ass) = concat (map (render x) ass)"
  by (induction ass) (simp_all add: render_append)

lemma Execute_node_atoms:
  "Execute_node \<lparr>Now = x, App = app, Primitives_field = prims\<rparr> vars n
     = render x (atoms_node app prims vars n)"
proof (induction app prims vars n rule: atoms_node.induct)
  case (6 app prims vars body)
  have "concat (map (Execute_node \<lparr>Now = x, App = app, Primitives_field = prims\<rparr> (p # vars)) body)
      = render x (concat (map (atoms_node app prims (p # vars)) body))"
    if "p \<in> set prims" for p
    using "6.IH" [OF that] by (simp add: render_concat cong: map_cong)
  then show ?case
    by (simp add: render_concat cong: map_cong)
qed (simp_all add: Fprint_Data_def)

lemma Execute_atoms:
  "Execute t \<lparr>Now = x, App = app, Primitives_field = prims\<rparr>
     = render x (concat (map (atoms_node app prims []) t))"
proof -
  have "Execute_node \<lparr>Now = x, App = app, Primitives_field = prims\<rparr> []
      = (\<lambda>n. render x (atoms_node app prims [] n))"
    by (rule ext) (rule Execute_node_atoms)
  then show ?thesis
    by (simp add: Execute_def render_concat comp_def)
qed

lemma Clock_in_atoms_node:
  "prims \<noteq> [] \<Longrightarrow> Clock \<in> set (atoms_node app prims vars n) \<longleftrightarrow> reads_Now n"
proof (induction app prims vars n rule: atoms_node.induct)
  case (6 app prims vars body)
  from "6.prems" obtain p where p: "p \<in> set prims"
    by (cases prims) auto
  have "Clock \<in> set (atoms_node app prims (q # vars) b) \<longleftrightarrow> reads_Now b"
    if "q \<in> set prims" and "b \<in> set body" for q b
    using "6.IH" [OF that "6.prems"] .
  then have "Clock \<in> set (atoms_node app prims vars (Range body))
      \<longleftrightarrow> (\<exists>q \<in> set prims. \<exists>b \<in> set body. reads_Now b)"
    by auto
  also have "\<dots> \<longleftrightarrow> list_ex reads_Now body"
    using p by (auto simp: list_ex_iff)
  finally show ?case by simp
qed simp_all

lemma Clock_in_atoms:
  "prims \<noteq> [] \<Longrightarrow>
     Clock \<in> set (concat (map (atoms_node app prims []) t)) \<longleftrightarrow> list_ex reads_Now t"
  by (auto simp: list_ex_iff Clock_in_atoms_node)

lemma length_render:
  "length (render x as) = length (render [] as) + count_list as Clock * length x"
  by (induction x as rule: render.induct) simp_all

lemma render_eq_same_length:
  "length x = length y \<Longrightarrow> Clock \<in> set as \<Longrightarrow> render x as = render y as \<Longrightarrow> x = y"
proof (induction as)
  case Nil
  then show ?case by simp
next
  case (Cons a as)
  show ?case
  proof (cases a)
    case (Const s)
    with Cons show ?thesis by simp
  next
    case Clock
    with Cons.prems show ?thesis by simp
  qed
qed

lemma count_list_pos: "a \<in> set as \<Longrightarrow> 0 < count_list as a"
  by (induction as) auto

lemma render_inj:
  assumes "Clock \<in> set as" and "render x as = render y as"
  shows "x = y"
proof -
  from assms(1) have "0 < count_list as Clock"
    by (rule count_list_pos)
  moreover have "length (render x as) = length (render y as)"
    using assms(2) by simp
  then have "count_list as Clock * length x = count_list as Clock * length y"
    unfolding length_render [of x as] length_render [of y as] by simp
  ultimately have "length x = length y"
    by simp
  from this assms show ?thesis
    by (rule render_eq_same_length)
qed

lemma render_no_Clock: "Clock \<notin> set as \<Longrightarrow> render x as = render y as"
  by (induction x as rule: render.induct) simp_all

lemma Execute_node_reads_neither:
  "\<not> reads_Now n \<Longrightarrow> \<not> reads_App n \<Longrightarrow> Primitives_field d1 = Primitives_field d2 \<Longrightarrow>
     Execute_node d1 vars n = Execute_node d2 vars n"
proof (induction d1 vars n rule: Execute_node.induct)
  case (6 data vars body)
  have "concat (map (Execute_node data (x # vars)) body)
      = concat (map (Execute_node d2 (x # vars)) body)"
    if "x \<in> set (Primitives_field data)" for x
  proof -
    have "Execute_node data (x # vars) b = Execute_node d2 (x # vars) b"
      if "b \<in> set body" for b
      using "6.IH" [OF \<open>x \<in> set (Primitives_field data)\<close> that] "6.prems" that
      by (simp add: list_ex_iff)
    then show ?thesis
      by (simp cong: map_cong)
  qed
  with "6.prems"(3) show ?case
    by (simp cong: map_cong)
qed simp_all

lemma Execute_reads_neither:
  "\<not> list_ex reads_Now t \<Longrightarrow> \<not> list_ex reads_App t \<Longrightarrow>
     Primitives_field d1 = Primitives_field d2 \<Longrightarrow> Execute t d1 = Execute t d2"
  unfolding Execute_def
  by (rule arg_cong [where f = concat], rule map_cong)
     (auto simp: list_ex_iff intro: Execute_node_reads_neither)

lemma Primitives_nonempty: "Primitives \<noteq> []"
  by (simp add: Primitives_def)

lemma Execute_same_iff:
  "Execute t \<lparr>Now = x, App = app, Primitives_field = Primitives\<rparr>
     = Execute t \<lparr>Now = y, App = app, Primitives_field = Primitives\<rparr>
   \<longleftrightarrow> x = y \<or> \<not> list_ex reads_Now t"
proof (cases "list_ex reads_Now t")
  case True
  define as where "as = concat (map (atoms_node app Primitives []) t)"
  from True have "Clock \<in> set as"
    unfolding as_def using Clock_in_atoms [OF Primitives_nonempty] by simp
  then have "render x as = render y as \<longleftrightarrow> x = y"
    using render_inj [of as x y] by blast
  with True show ?thesis
    unfolding Execute_atoms as_def by simp
next
  case False
  define as where "as = concat (map (atoms_node app Primitives []) t)"
  from False have "Clock \<notin> set as"
    unfolding as_def using Clock_in_atoms [OF Primitives_nonempty] by simp
  then have "render x as = render y as"
    by (rule render_no_Clock)
  with False show ?thesis
    unfolding Execute_atoms as_def by simp
qed

section \<open>The claims\<close>

text \<open>
  C1. For every failure set and every ordered pair (from, to) of catalog type names,
  \<open>Report\<close> marks the pair convertible (the check mark) if and only if the failure set
  has no element whose \<open>From\<close> equals from and whose \<open>To\<close> equals to, both by exact
  string equality; otherwise it marks it with the cross; \<open>Contains\<close> is that
  membership test.
\<close>

theorem C1_Report_marks_by_Contains:
  assumes "from \<in> set Primitives" and "to \<in> set Primitives"
  shows "(Infof pair_format [from, to, check_mark] \<in> set (fst (Report cfs []))
            \<longleftrightarrow> \<not> (\<exists>cf \<in> set cfs. From cf = from \<and> To cf = to))
       \<and> (Infof pair_format [from, to, cross_mark] \<in> set (fst (Report cfs []))
            \<longleftrightarrow> (\<exists>cf \<in> set cfs. From cf = from \<and> To cf = to))
       \<and> (Contains cfs from to \<longleftrightarrow> (\<exists>cf \<in> set cfs. From cf = from \<and> To cf = to))"
proof -
  have c: "Contains cfs from to \<longleftrightarrow> (\<exists>cf \<in> set cfs. From cf = from \<and> To cf = to)"
    by (rule Contains_iff)
  have "Infof pair_format [from, to, check_mark] \<in> set (fst (Report cfs []))
          \<longleftrightarrow> check_mark = compatible cfs from to"
    using assms pair_entry_in_Report [of "from" to check_mark cfs]
    by (simp add: pair_entry_def)
  moreover have "Infof pair_format [from, to, cross_mark] \<in> set (fst (Report cfs []))
          \<longleftrightarrow> cross_mark = compatible cfs from to"
    using assms pair_entry_in_Report [of "from" to cross_mark cfs]
    by (simp add: pair_entry_def)
  ultimately show ?thesis
    using c marks_differ by (auto simp: compatible_def)
qed

theorem C1_witness:
  "''int'' \<in> set Primitives \<and> ''uint8'' \<in> set Primitives
   \<and> Infof pair_format [''int'', ''uint8'', check_mark]
        \<in> set (fst (Report [\<lparr>From = ''int'', To = ''uint''\<rparr>] []))
   \<and> \<not> Contains [\<lparr>From = ''int'', To = ''uint''\<rparr>] ''int'' ''uint8''"
proof -
  have a: "''int'' \<in> set Primitives" and b: "''uint8'' \<in> set Primitives"
    by (simp_all add: Primitives_def)
  from C1_Report_marks_by_Contains [OF a b, of "[\<lparr>From = ''int'', To = ''uint''\<rparr>]"] a b
  show ?thesis by simp
qed

text \<open>
  C2 (amended). The catalog alone does not fix what \<open>Generate\<close> writes: it hands the
  formatted clock reading and \<open>os.Args[0]\<close> to the template. For a template made of
  literal text, \<open>{{$}}\<close>, \<open>{{$.Now}}\<close>, \<open>{{$.App}}\<close>, ranges over
  \<open>$.Primitives\<close> and their variables: two runs with the same template file, the
  same catalog and the same results of creating and writing the output file write
  byte-identical output when the template prints neither the clock reading nor the
  program name; and when both runs write the whole output under the same program name,
  the two outputs are byte-identical exactly when the clock readings are equal or the
  template does not print the clock reading.
\<close>

theorem C2_Generate_output_and_clock:
  assumes "ParseFiles w1 = ParseFiles w2"
    and "create w1 = create w2"
    and "write_fail w1 = write_fail w2"
  shows "((\<forall>t. ParseFiles w1 = Inr t \<longrightarrow> \<not> list_ex reads_Now t \<and> \<not> list_ex reads_App t)
            \<longrightarrow> Generate w1 = Generate w2)
       \<and> (\<forall>t. ParseFiles w1 = Inr t \<and> create w1 = None \<and> write_fail w1 = None
                \<and> arg0 w1 = arg0 w2 \<longrightarrow>
              (snd (Generate w1) = snd (Generate w2)
                 \<longleftrightarrow> now w1 = now w2 \<or> \<not> list_ex reads_Now t))"
proof (intro conjI impI allI)
  assume free: "\<forall>t. ParseFiles w1 = Inr t \<longrightarrow> \<not> list_ex reads_Now t \<and> \<not> list_ex reads_App t"
  show "Generate w1 = Generate w2"
  proof (cases "ParseFiles w1")
    case (Inl err)
    moreover from Inl assms(1) have "ParseFiles w2 = Inl err"
      by simp
    ultimately show ?thesis
      by (simp add: Generate_def)
  next
    case (Inr t)
    with free have "\<not> list_ex reads_Now t" and "\<not> list_ex reads_App t"
      by simp_all
    then have "Execute t \<lparr>Now = now w1, App = arg0 w1, Primitives_field = Primitives\<rparr>
        = Execute t \<lparr>Now = now w2, App = arg0 w2, Primitives_field = Primitives\<rparr>"
      by (rule Execute_reads_neither) simp
    moreover from Inr assms(1) have "ParseFiles w2 = Inr t"
      by simp
    ultimately show ?thesis
      using Inr assms(2,3) by (simp add: Generate_def Let_def split: option.splits)
  qed
next
  fix t
  assume h: "ParseFiles w1 = Inr t \<and> create w1 = None \<and> write_fail w1 = None
                \<and> arg0 w1 = arg0 w2"
  then have p1: "ParseFiles w1 = Inr t" and c1: "create w1 = None"
    and f1: "write_fail w1 = None" and a: "arg0 w2 = arg0 w1"
    by simp_all
  from assms p1 c1 f1 have p2: "ParseFiles w2 = Inr t" and c2: "create w2 = None"
    and f2: "write_fail w2 = None"
    by simp_all
  have "snd (Generate w1)
        = Some (Execute t \<lparr>Now = now w1, App = arg0 w1, Primitives_field = Primitives\<rparr>)"
    by (simp add: Generate_def p1 c1 f1)
  moreover have "snd (Generate w2)
        = Some (Execute t \<lparr>Now = now w2, App = arg0 w1, Primitives_field = Primitives\<rparr>)"
    by (simp add: Generate_def p2 c2 f2 a)
  ultimately have "snd (Generate w1)
        = Some (Execute t \<lparr>Now = now w1, App = arg0 w1, Primitives_field = Primitives\<rparr>)"
    and "snd (Generate w2)
        = Some (Execute t \<lparr>Now = now w2, App = arg0 w1, Primitives_field = Primitives\<rparr>)"
    by simp_all
  then show "snd (Generate w1) = snd (Generate w2)
                 \<longleftrightarrow> now w1 = now w2 \<or> \<not> list_ex reads_Now t"
    by (simp add: Execute_same_iff)
qed

theorem C2_witness:
  "Generate \<lparr>ParseFiles = Inr [Text ''package main'', Range [Range [Elem 1, Text ''->'', Elem 0]]],
             create = None, now = ''2021-03-04T05:06:07Z'', arg0 = ''./go-conversions'',
             write_fail = None, build = Exited 2, stderr = [], elapsed = ''1s''\<rparr>
   = Generate \<lparr>ParseFiles = Inr [Text ''package main'', Range [Range [Elem 1, Text ''->'', Elem 0]]],
             create = None, now = ''2022-01-01T00:00:00Z'', arg0 = ''/tmp/main'',
             write_fail = None, build = Exited 2, stderr = [], elapsed = ''2s''\<rparr>
   \<and> snd (Generate \<lparr>ParseFiles = Inr [Range [Text ''// '', Root]],
             create = None, now = ''2021-03-04T05:06:07Z'', arg0 = ''./go-conversions'',
             write_fail = None, build = Exited 2, stderr = [], elapsed = ''1s''\<rparr>)
     \<noteq> snd (Generate \<lparr>ParseFiles = Inr [Range [Text ''// '', Root]],
             create = None, now = ''2021-03-04T05:06:08Z'', arg0 = ''./go-conversions'',
             write_fail = None, build = Exited 2, stderr = [], elapsed = ''1s''\<rparr>)"
proof -
  let ?a = "\<lparr>ParseFiles = Inr [Text ''package main'', Range [Range [Elem 1, Text ''->'', Elem 0]]],
             create = None, now = ''2021-03-04T05:06:07Z'', arg0 = ''./go-conversions'',
             write_fail = None, build = Exited 2, stderr = [], elapsed = ''1s''\<rparr>"
  let ?b = "\<lparr>ParseFiles = Inr [Text ''package main'', Range [Range [Elem 1, Text ''->'', Elem 0]]],
             create = None, now = ''2022-01-01T00:00:00Z'', arg0 = ''/tmp/main'',
             write_fail = None, build = Exited 2, stderr = [], elapsed = ''2s''\<rparr>"
  let ?c = "\<lparr>ParseFiles = Inr [Range [Text ''// '', Root]],
             create = None, now = ''2021-03-04T05:06:07Z'', arg0 = ''./go-conversions'',
             write_fail = None, build = Exited 2, stderr = [], elapsed = ''1s''\<rparr>"
  let ?d = "\<lparr>ParseFiles = Inr [Range [Text ''// '', Root]],
             create = None, now = ''2021-03-04T05:06:08Z'', arg0 = ''./go-conversions'',
             write_fail = None, build = Exited 2, stderr = [], elapsed = ''1s''\<rparr>"
  have "Generate ?a = Generate ?b"
    using C2_Generate_output_and_clock [of ?a ?b, THEN conjunct1] by simp
  moreover have "snd (Generate ?c) \<noteq> snd (Generate ?d)"
    using C2_Generate_output_and_clock [of ?c ?d, THEN conjunct2, rule_format,
        of "[Range [Text ''// '', Root]]"]
    by simp
  ultimately show ?thesis by simp
qed

text \<open>
  C2 as stated fails: one template that prints \<open>.Now\<close>, the same catalog, two clock
  readings one second apart, two different outputs.
\<close>

theorem C2_counterexample:
  "snd (Generate \<lparr>ParseFiles = Inr [Text ''// generated at '', FieldNow],
             create = None, now = ''2021-03-04T05:06:07Z'', arg0 = ''./go-conversions'',
             write_fail = None, build = Exited 2, stderr = [], elapsed = ''1s''\<rparr>)
     = Some ''// generated at 2021-03-04T05:06:07Z''
   \<and> snd (Generate \<lparr>ParseFiles = Inr [Text ''// generated at '', FieldNow],
             create = None, now = ''2021-03-04T05:06:08Z'', arg0 = ''./go-conversions'',
             write_fail = None, build = Exited 2, stderr = [], elapsed = ''1s''\<rparr>)
     = Some ''// generated at 2021-03-04T05:06:08Z''
   \<and> snd (Generate \<lparr>ParseFiles = Inr [Text ''// generated at '', FieldNow],
             create = None, now = ''2021-03-04T05:06:07Z'', arg0 = ''./go-conversions'',
             write_fail = None, build = Exited 2, stderr = [], elapsed = ''1s''\<rparr>)
     \<noteq> snd (Generate \<lparr>ParseFiles = Inr [Text ''// generated at '', FieldNow],
             create = None, now = ''2021-03-04T05:06:08Z'', arg0 = ''./go-conversions'',
             write_fail = None, build = Exited 2, stderr = [], elapsed = ''1s''\<rparr>)"
  by (simp add: Generate_def Execute_def)

text \<open>
  C3. A diagnostic stream with a line that contains \<open>cannot convert\<close> and that the
  extraction pattern does not match is to end the run with an error that reaches
  \<open>main\<close>. The code does not do this: on the stream below, with the exit status
  \<open>Compile\<close> expects, \<open>Compile\<close> reads \<open>matches[1]\<close> of the nil match result and
  panics, the panic passes through \<open>Main\<close>, and the process ends with status 2
  after the deferred duration entry; \<open>logrus.Fatal\<close> receives no error.
\<close>

theorem C3_unmatched_line_ends_run_by_panic:
  "Compile (Exited 2) ''x.go:9:6: cannot convert nil to type bool''
     = Panic (IndexOutOfRange 1 0)
   \<and> Main \<lparr>ParseFiles = Inr [Text ''package main''], create = None,
          now = ''2021-03-04T05:06:07Z'', arg0 = ''./go-conversions'', write_fail = None,
          build = Exited 2, stderr = ''x.go:9:6: cannot convert nil to type bool'',
          elapsed = ''1s''\<rparr> []
     = (Panic (IndexOutOfRange 1 0), [])
   \<and> main \<lparr>ParseFiles = Inr [Text ''package main''], create = None,
          now = ''2021-03-04T05:06:07Z'', arg0 = ''./go-conversions'', write_fail = None,
          build = Exited 2, stderr = ''x.go:9:6: cannot convert nil to type bool'',
          elapsed = ''1s''\<rparr>
     = (2, [Info ''starting'', Infof ''execution took %v'' [''1s'']])"
proof -
  have l: "''x.go:9:6: cannot convert nil to type bool''
      \<in> set (strings_Split ''x.go:9:6: cannot convert nil to type bool'' CHR 0x0A)"
    by (simp add: split_unmatched_line)
  have "accepted (Exited 2)"
    by (simp add: accepted_iff)
  with Compile_unmatched(1) [OF l marker_in_unmatched_line unmatched_line]
  have "Compile (Exited 2) ''x.go:9:6: cannot convert nil to type bool''
      = Panic (IndexOutOfRange 1 0)"
    by simp
  then show ?thesis
    by (simp add: main_def Main_def Generate_def)
qed

text \<open>
  C4 (amended). When the build outcome is accepted and every line that contains the
  marker matches the pattern, \<open>Compile\<close> returns one entry per marker line, in stream
  order, duplicates kept, so k lines give k entries. The report of that failure set is
  the walk over the catalog in which a pair of catalog type names carries the cross
  exactly when it occurs among the entries and the check mark otherwise; a pair with a
  name outside the catalog has no entry in the report, with either mark.
\<close>

theorem C4_entries_and_marks:
  assumes "outcome = Exited 0 \<or> outcome = Exited 2"
    and "\<forall>l \<in> set (marker_lines stderrContent). FindStringSubmatch re l \<noteq> []"
  shows "Compile outcome stderrContent = Value (map extract_pair (marker_lines stderrContent))
       \<and> length (map extract_pair (marker_lines stderrContent))
            = length (marker_lines stderrContent)
       \<and> fst (Report (map extract_pair (marker_lines stderrContent)) [])
            = report_of (\<lambda>a b. \<exists>l \<in> set (marker_lines stderrContent).
                                   extract_pair l = \<lparr>From = a, To = b\<rparr>)
       \<and> (\<forall>a b g. Infof pair_format [a, b, g]
                     \<in> set (fst (Report (map extract_pair (marker_lines stderrContent)) []))
               \<longleftrightarrow> a \<in> set Primitives \<and> b \<in> set Primitives
                   \<and> g = (if \<exists>l \<in> set (marker_lines stderrContent).
                                extract_pair l = \<lparr>From = a, To = b\<rparr>
                          then cross_mark else check_mark))"
proof -
  from assms(1) have "accepted outcome"
    by (simp add: accepted_iff)
  then have "Compile outcome stderrContent = Value (map extract_pair (marker_lines stderrContent))"
    using assms(2) by (rule Compile_all_match)
  moreover have "fst (Report (map extract_pair (marker_lines stderrContent)) [])
            = report_of (\<lambda>a b. \<exists>l \<in> set (marker_lines stderrContent).
                                   extract_pair l = \<lparr>From = a, To = b\<rparr>)"
    by (simp add: Report_report_of Contains_extracted)
  ultimately show ?thesis
    by (simp add: pair_in_report_of)
qed

theorem C4_witness:
  "Compile (Exited 2)
     (''# x'' @ [CHR 0x0A]
      @ ''a.go:1: cannot convert p.string (type string) to type bool'' @ [CHR 0x0A]
      @ ''a.go:2: cannot convert p.bool (type bool) to type int'' @ [CHR 0x0A]
      @ ''a.go:1: cannot convert p.string (type string) to type bool'' @ [CHR 0x0A])
     = Value [\<lparr>From = ''string'', To = ''bool''\<rparr>, \<lparr>From = ''bool'', To = ''int''\<rparr>,
              \<lparr>From = ''string'', To = ''bool''\<rparr>]
   \<and> Infof pair_format [''bool'', ''int'', cross_mark]
       \<in> set (fst (Report [\<lparr>From = ''string'', To = ''bool''\<rparr>, \<lparr>From = ''bool'', To = ''int''\<rparr>,
                            \<lparr>From = ''string'', To = ''bool''\<rparr>] []))
   \<and> Infof pair_format [''int'', ''bool'', check_mark]
       \<in> set (fst (Report [\<lparr>From = ''string'', To = ''bool''\<rparr>, \<lparr>From = ''bool'', To = ''int''\<rparr>,
                            \<lparr>From = ''string'', To = ''bool''\<rparr>] []))
   \<and> Infof pair_format [''int'', ''bool'', cross_mark]
       \<notin> set (fst (Report [\<lparr>From = ''string'', To = ''bool''\<rparr>, \<lparr>From = ''bool'', To = ''int''\<rparr>,
                            \<lparr>From = ''string'', To = ''bool''\<rparr>] []))"
proof -
  let ?s = "''# x'' @ [CHR 0x0A]
      @ ''a.go:1: cannot convert p.string (type string) to type bool'' @ [CHR 0x0A]
      @ ''a.go:2: cannot convert p.bool (type bool) to type int'' @ [CHR 0x0A]
      @ ''a.go:1: cannot convert p.string (type string) to type bool'' @ [CHR 0x0A]"
  have 1: "Exited 2 = Exited 0 \<or> Exited 2 = Exited 2"
    by simp
  have 2: "\<forall>l \<in> set (marker_lines ?s). FindStringSubmatch re l \<noteq> []"
    unfolding marker_lines_sample_stream
    by (simp add: matched_string_bool_line matched_bool_int_line)
  have p: "''bool'' \<in> set Primitives" "''int'' \<in> set Primitives"
    by (simp_all add: Primitives_def)
  note r = C4_entries_and_marks [OF 1 2, unfolded marker_lines_sample_stream]
  from r [THEN conjunct1]
    r [THEN conjunct2, THEN conjunct2, THEN conjunct2, rule_format, of "''bool''" "''int''" cross_mark]
    r [THEN conjunct2, THEN conjunct2, THEN conjunct2, rule_format, of "''int''" "''bool''" check_mark]
    r [THEN conjunct2, THEN conjunct2, THEN conjunct2, rule_format, of "''int''" "''bool''" cross_mark]
    p marks_differ
  show ?thesis
    unfolding marker_lines_sample_stream
    by (simp add: extract_string_bool extract_bool_int)
qed

text \<open>
  C4 as stated fails: one matching marker line whose pair is (foo, bar) gives a
  failure set of one entry, and the report marks no pair not-convertible; it is the
  report of the empty failure set.
\<close>

theorem C4_counterexample:
  "marker_lines ''x.go:9:6: cannot convert p.foo (type foo) to type bar''
     = [''x.go:9:6: cannot convert p.foo (type foo) to type bar'']
   \<and> FindStringSubmatch re ''x.go:9:6: cannot convert p.foo (type foo) to type bar''
     = [''x.go:9:6: cannot convert p.foo (type foo) to type bar'', ''foo'', ''bar'']
   \<and> Compile (Exited 2) ''x.go:9:6: cannot convert p.foo (type foo) to type bar''
     = Value [\<lparr>From = ''foo'', To = ''bar''\<rparr>]
   \<and> Infof pair_format [''foo'', ''bar'', cross_mark]
        \<notin> set (fst (Report [\<lparr>From = ''foo'', To = ''bar''\<rparr>] []))
   \<and> fst (Report [\<lparr>From = ''foo'', To = ''bar''\<rparr>] []) = fst (Report [] [])"
proof -
  have "''foo'' \<notin> set Primitives"
    by (simp add: Primitives_def)
  then have c: "compatible [\<lparr>From = ''foo'', To = ''bar''\<rparr>] a b = compatible [] a b"
    if "a \<in> set Primitives" for a b
    using that by (auto simp: compatible_def)
  have "block [\<lparr>From = ''foo'', To = ''bar''\<rparr>] a = block [] a" if "a \<in> set Primitives" for a
    using c [OF that] by (simp add: block_def)
  then have "fst (Report [\<lparr>From = ''foo'', To = ''bar''\<rparr>] []) = fst (Report [] [])"
    by (simp add: Report_eq cong: map_cong)
  moreover have "Infof pair_format [''foo'', ''bar'', cross_mark]
        \<notin> set (fst (Report [\<lparr>From = ''foo'', To = ''bar''\<rparr>] []))"
    using pair_entry_in_Report [of "''foo''" "''bar''" cross_mark "[\<lparr>From = ''foo'', To = ''bar''\<rparr>]"]
      \<open>''foo'' \<notin> set Primitives\<close>
    by (simp add: pair_entry_def)
  moreover have "accepted (Exited 2)"
    by (simp add: accepted_iff)
  then have "Compile (Exited 2) ''x.go:9:6: cannot convert p.foo (type foo) to type bar''
     = Value [\<lparr>From = ''foo'', To = ''bar''\<rparr>]"
    by (simp add: Compile_accepted extraction_eq marker_lines_foo_line matched_foo_line index_def)
  ultimately show ?thesis
    by (simp add: marker_lines_foo_line matched_foo_line)
qed

text \<open>
  C5. \<open>Compile\<close> takes exit status 2 of the build command as its success path and goes
  on to the extraction; every other non-zero exit status, and every failure to launch
  the command (the program is not found, or the process cannot be started), makes it
  return an error and no failure set.
\<close>

theorem C5_exit_status:
  "Compile (Exited 2) stderrContent = extraction stderrContent
   \<and> (\<forall>n. n \<noteq> 0 \<and> n \<noteq> 2 \<longrightarrow>
          Compile (Exited n) stderrContent =
            Error (Wrap (ExitError n) ''unexpected error while running compilation command''))
   \<and> (\<forall>cause.
          Compile (LookPathFailed cause) stderrContent =
            Error (Wrap (ExecError ''go'' cause)
                     ''unexpected error while running compilation command''))
   \<and> (\<forall>path cause.
          Compile (StartFailed path cause) stderrContent =
            Error (Wrap (PathError ''fork/exec'' path cause)
                     ''unexpected error while running compilation command''))"
  by (simp add: Compile_def Itoa_eq_2 program_eq)

theorem C5_witness:
  "(1::nat) \<noteq> 0 \<and> (1::nat) \<noteq> 2
   \<and> Compile (Exited 1) ''''
       = Error (Wrap (ExitError 1) ''unexpected error while running compilation command'')
   \<and> Compile (Exited 2) '''' = Value []"
proof -
  have "extraction '''' = Value []"
    by code_simp
  with C5_exit_status [of "''''"] show ?thesis
    by simp
qed



text \<open>
  C7. When no line of the diagnostic stream contains \<open>cannot convert\<close> (and the build
  outcome is accepted, so that \<open>Compile\<close> builds a failure set), the failure set is
  empty and every one of the 19 * 19 pairs of the report carries the check mark.
\<close>

theorem C7_no_marker_all_convertible:
  assumes "\<forall>l \<in> set (strings_Split stderrContent CHR 0x0A). \<not> strings_Contains l ''cannot convert''"
    and "outcome = Exited 0 \<or> outcome = Exited 2"
  shows "Compile outcome stderrContent = Value []
       \<and> length (List.product Primitives Primitives) = 19 * 19
       \<and> (\<forall>p \<in> set (List.product Primitives Primitives).
            Infof pair_format [fst p, snd p, check_mark] \<in> set (fst (Report [] []))
            \<and> Infof pair_format [fst p, snd p, cross_mark] \<notin> set (fst (Report [] [])))
       \<and> fst (Report [] [])
           = concat (map (\<lambda>a. Infof header_format [a]
                              # map (\<lambda>b. Infof pair_format [a, b, check_mark]) Primitives)
                       Primitives)"
proof -
  from assms(1) have "marker_lines stderrContent = []"
    by (simp add: marker_lines_def marker_def)
  moreover from assms(2) have "accepted outcome"
    by (simp add: accepted_iff)
  ultimately have "Compile outcome stderrContent = Value []"
    by (simp add: Compile_accepted extraction_eq)
  moreover have "Infof pair_format [a, b, check_mark] \<in> set (fst (Report [] []))
      \<and> Infof pair_format [a, b, cross_mark] \<notin> set (fst (Report [] []))"
    if "a \<in> set Primitives" and "b \<in> set Primitives" for a b
    using that pair_entry_in_Report [of a b check_mark "[]"]
      pair_entry_in_Report [of a b cross_mark "[]"] marks_differ
    by (simp add: pair_entry_def compatible_def)
  moreover have "fst (Report [] [])
           = concat (map (\<lambda>a. Infof header_format [a]
                              # map (\<lambda>b. Infof pair_format [a, b, check_mark]) Primitives)
                       Primitives)"
  proof -
    have "block [] = (\<lambda>a. Infof header_format [a]
                              # map (\<lambda>b. Infof pair_format [a, b, check_mark]) Primitives)"
      by (rule ext) (simp add: block_def header_entry_def pair_entry_def compatible_def)
    then show ?thesis
      by (simp add: Report_eq)
  qed
  ultimately show ?thesis
    by (auto simp: length_Primitives)
qed

theorem C7_witness:
  "Compile (Exited 2) ''# command-line-arguments'' = Value []
   \<and> Infof pair_format [''string'', ''bool'', check_mark] \<in> set (fst (Report [] []))"
proof -
  have 1: "\<forall>l \<in> set (strings_Split ''# command-line-arguments'' CHR 0x0A).
             \<not> strings_Contains l ''cannot convert''"
    by code_simp
  have 2: "Exited 2 = Exited 0 \<or> Exited 2 = Exited 2"
    by simp
  have 3: "(''string'', ''bool'') \<in> set (List.product Primitives Primitives)"
    by (simp add: Primitives_def)
  note r = C7_no_marker_all_convertible [OF 1 2]
  from r [THEN conjunct1] r [THEN conjunct2, THEN conjunct2, THEN conjunct1, rule_format, OF 3]
  show ?thesis by simp
qed

text \<open>
  C8. \<open>Report\<close> walks the catalog's self-product in catalog order: for the i-th type
  name it emits a header, then one entry for each of the 19 type names in catalog
  order, with the from-type, the to-type and the mark (the cross when \<open>Contains\<close>
  holds, the check mark otherwise); 19 blocks of 20 entries, and a nil error.
\<close>

theorem C8_Report_order:
  "length (fst (Report cfs [])) = 19 * 20 \<and> snd (Report cfs []) = None
   \<and> (\<forall>i < 19.
        fst (Report cfs []) ! (20 * i) = Infof header_format [Primitives ! i]
        \<and> (\<forall>j < 19.
             fst (Report cfs []) ! (20 * i + (1 + j)) =
               Infof pair_format
                 [Primitives ! i, Primitives ! j,
                  if Contains cfs (Primitives ! i) (Primitives ! j) then cross_mark
                  else check_mark]))"
proof -
  have len: "length (fst (Report cfs [])) = 19 * 20"
    using length_concat_blocks [of "block cfs" 20 Primitives]
    by (simp add: Report_eq length_block length_Primitives)
  have nth: "fst (Report cfs []) ! (20 * i + j) = block cfs (Primitives ! i) ! j"
    if "i < 19" and "j < 20" for i j
    using that nth_concat_blocks [of "block cfs" 20 i Primitives j]
    by (simp add: Report_eq length_block length_Primitives)
  have hd: "fst (Report cfs []) ! (20 * i) = Infof header_format [Primitives ! i]"
    if "i < 19" for i
    using nth [OF that, of 0] by (simp add: block_def header_entry_def)
  have pr: "fst (Report cfs []) ! (20 * i + (1 + j)) =
      Infof pair_format
        [Primitives ! i, Primitives ! j,
         if Contains cfs (Primitives ! i) (Primitives ! j) then cross_mark else check_mark]"
    if "i < 19" and "j < 19" for i j
    using nth [OF that(1), of "1 + j"] that(2)
    by (simp add: block_def pair_entry_def compatible_def length_Primitives)
  from len hd pr show ?thesis
    by (simp add: Report_def)
qed

theorem C8_witness:
  "(1::nat) < 19 \<and> (2::nat) < 19
   \<and> fst (Report [] []) ! 20 = Infof header_format [''uint8'']
   \<and> fst (Report [] []) ! 23 = Infof pair_format [''uint8'', ''uint16'', check_mark]"
proof -
  have i: "(1::nat) < 19" and j: "(2::nat) < 19"
    by simp_all
  have p: "Primitives ! 1 = ''uint8''" "Primitives ! 2 = ''uint16''"
    by (simp_all add: Primitives_def)
  note row = C8_Report_order [of "[]", THEN conjunct2, THEN conjunct2, rule_format, OF i]
  note header = row [THEN conjunct1]
    and pair = row [THEN conjunct2, rule_format, OF j]
  from header pair p show ?thesis
    by simp
qed

text \<open>
  C9. There is a captured standard error with a line that contains
  \<open>cannot convert\<close> and that the extraction pattern does not match; there
  \<open>FindStringSubmatch\<close> returns nil, reading \<open>matches[1]\<close> is out of range, and
  \<open>Compile\<close> panics (index out of range [1] with length 0) where it could have
  returned an error.
\<close>

theorem C9_unmatched_marker_line_panics:
  "strings_Contains ''x.go:9:6: cannot convert nil to type bool'' ''cannot convert''
   \<and> FindStringSubmatch re ''x.go:9:6: cannot convert nil to type bool'' = []
   \<and> index (FindStringSubmatch re ''x.go:9:6: cannot convert nil to type bool'') 1
        = Inl (IndexOutOfRange 1 0)
   \<and> Compile (Exited 2) ''x.go:9:6: cannot convert nil to type bool''
        = Panic (IndexOutOfRange 1 0)"
proof -
  have "accepted (Exited 2)"
    by (simp add: accepted_iff)
  then have "Compile (Exited 2) ''x.go:9:6: cannot convert nil to type bool''
      = cfs_loop (marker_lines ''x.go:9:6: cannot convert nil to type bool'') []"
    by (simp add: Compile_accepted extraction_eq)
  moreover have "marker_lines ''x.go:9:6: cannot convert nil to type bool''
      = [''x.go:9:6: cannot convert nil to type bool'']"
    using marker_in_unmatched_line by (simp add: marker_lines_def split_unmatched_line)
  ultimately show ?thesis
    using unmatched_line marker_in_unmatched_line
    by (simp add: index_def marker_def)
qed

text \<open>
  C10 (amended). When the build command exits with status 0, \<open>cmd.Run\<close> returns nil
  and \<open>Compile\<close> returns no error: it does what it does for exit status 2 and reads
  the captured standard error. When every marker line there matches the pattern it
  returns the failure set with one entry per marker line and, \<open>Generate\<close> having
  succeeded, the run completes normally: exit status 0, and a report that carries the
  cross for the catalog pairs among the entries and the check mark for the others.
  With no marker line the failure set is empty and every pair is reported convertible.
\<close>

theorem C10_exit_status_0:
  assumes "build w = Exited 0"
  shows "cmd_Run program (build w) = None
       \<and> Compile (build w) (stderr w) = Compile (Exited 2) (stderr w)
       \<and> (\<forall>err. Compile (build w) (stderr w) \<noteq> Error err)
       \<and> ((\<forall>l \<in> set (marker_lines (stderr w)). FindStringSubmatch re l \<noteq> []) \<longrightarrow>
            Compile (build w) (stderr w) = Value (map extract_pair (marker_lines (stderr w)))
            \<and> (fst (Generate w) = None \<longrightarrow>
                 main w = (0, [Info ''starting'']
                     @ report_of (\<lambda>a b. \<exists>l \<in> set (marker_lines (stderr w)).
                                           extract_pair l = \<lparr>From = a, To = b\<rparr>)
                     @ [Info ''done'', Infof ''execution took %v'' [elapsed w]])))
       \<and> (marker_lines (stderr w) = [] \<and> fst (Generate w) = None \<longrightarrow>
            Main w [] = (Value (), report_of (\<lambda>a b. False))
            \<and> fst (main w) = 0
            \<and> (\<forall>a \<in> set Primitives. \<forall>b \<in> set Primitives.
                  Infof pair_format [a, b, check_mark] \<in> set (snd (main w))
                  \<and> Infof pair_format [a, b, cross_mark] \<notin> set (snd (main w))))"
proof -
  from assms have r: "cmd_Run program (build w) = None"
    by simp
  from assms have acc: "accepted (build w)"
    by (simp add: accepted_iff)
  have acc2: "accepted (Exited 2)"
    by (simp add: accepted_iff)
  have c: "Compile (build w) (stderr w) = Compile (Exited 2) (stderr w)"
    using acc acc2 by (simp add: Compile_accepted)
  have e: "Compile (build w) (stderr w) \<noteq> Error err" for err
    using acc by (simp add: Compile_accepted extraction_not_Error)
  have m: "Compile (build w) (stderr w) = Value (map extract_pair (marker_lines (stderr w)))"
    if "\<forall>l \<in> set (marker_lines (stderr w)). FindStringSubmatch re l \<noteq> []"
    using acc that by (rule Compile_all_match)
  have n: "main w = (0, [Info ''starting'']
                     @ report_of (\<lambda>a b. \<exists>l \<in> set (marker_lines (stderr w)).
                                           extract_pair l = \<lparr>From = a, To = b\<rparr>)
                     @ [Info ''done'', Infof ''execution took %v'' [elapsed w]])"
    if "\<forall>l \<in> set (marker_lines (stderr w)). FindStringSubmatch re l \<noteq> []"
      and "fst (Generate w) = None"
    using that(2) acc that(1) by (rule main_report)
  have z: "Main w [] = (Value (), report_of (\<lambda>a b. False))
            \<and> fst (main w) = 0
            \<and> (\<forall>a \<in> set Primitives. \<forall>b \<in> set Primitives.
                  Infof pair_format [a, b, check_mark] \<in> set (snd (main w))
                  \<and> Infof pair_format [a, b, cross_mark] \<notin> set (snd (main w)))"
    if "marker_lines (stderr w) = []" and g: "fst (Generate w) = None"
  proof -
    from that(1) have all: "\<forall>l \<in> set (marker_lines (stderr w)). FindStringSubmatch re l \<noteq> []"
      by simp
    from Main_report [OF g acc all, of "[]"] that(1)
    have 1: "Main w [] = (Value (), report_of (\<lambda>a b. False))"
      by simp
    from main_report [OF g acc all] that(1)
    have 2: "main w = (0, [Info ''starting''] @ report_of (\<lambda>a b. False)
                     @ [Info ''done'', Infof ''execution took %v'' [elapsed w]])"
      by simp
    from 1 2 marks_differ show ?thesis
      by (simp add: pair_in_report_of)
  qed
  from r c e m n z show ?thesis
    by blast
qed

theorem C10_witness:
  "Compile (Exited 0) [] = Value []
   \<and> fst (main \<lparr>ParseFiles = Inr [Text ''package main''], create = None,
          now = ''2021-03-04T05:06:07Z'', arg0 = ''./go-conversions'', write_fail = None,
          build = Exited 0, stderr = [], elapsed = ''1s''\<rparr>) = 0
   \<and> Infof pair_format [''string'', ''bool'', check_mark]
       \<in> set (snd (main \<lparr>ParseFiles = Inr [Text ''package main''], create = None,
          now = ''2021-03-04T05:06:07Z'', arg0 = ''./go-conversions'', write_fail = None,
          build = Exited 0, stderr = [], elapsed = ''1s''\<rparr>))"
proof -
  let ?w = "\<lparr>ParseFiles = Inr [Text ''package main''], create = None,
          now = ''2021-03-04T05:06:07Z'', arg0 = ''./go-conversions'', write_fail = None,
          build = Exited 0, stderr = [], elapsed = ''1s''\<rparr>"
  have b: "build ?w = Exited 0"
    by simp
  have g: "fst (Generate ?w) = None"
    by (simp add: Generate_def)
  have l: "marker_lines (stderr ?w) = []"
    by (simp add: marker_lines_def marker_def)
  have p: "''string'' \<in> set Primitives" "''bool'' \<in> set Primitives"
    by (simp_all add: Primitives_def)
  note r = C10_exit_status_0 [OF b]
  note last = r [THEN conjunct2, THEN conjunct2, THEN conjunct2, THEN conjunct2, rule_format,
      OF conjI [OF l g]]
  from r [THEN conjunct2, THEN conjunct2, THEN conjunct2, THEN conjunct1] l
  have "Compile (Exited 0) [] = Value []"
    by simp
  moreover note last [THEN conjunct2, THEN conjunct1]
  moreover from last [THEN conjunct2, THEN conjunct2, rule_format, OF p]
  have "Infof pair_format [''string'', ''bool'', check_mark] \<in> set (snd (main ?w))"
    by simp
  ultimately show ?thesis
    by simp
qed

text \<open>
  C10 as stated fails: exit status 0 with a matching marker line on the standard error
  completes normally, and the report carries the cross for the pair (bool, int).
\<close>

theorem C10_counterexample:
  "main \<lparr>ParseFiles = Inr [Text ''package main''], create = None,
          now = ''2021-03-04T05:06:07Z'', arg0 = ''./go-conversions'', write_fail = None,
          build = Exited 0,
          stderr = ''a.go:2: cannot convert p.bool (type bool) to type int'',
          elapsed = ''1s''\<rparr>
     = (0, [Info ''starting'']
           @ fst (Report [\<lparr>From = ''bool'', To = ''int''\<rparr>] [])
           @ [Info ''done'', Infof ''execution took %v'' [''1s'']])
   \<and> Infof pair_format [''bool'', ''int'', cross_mark]
       \<in> set (fst (Report [\<lparr>From = ''bool'', To = ''int''\<rparr>] []))
   \<and> Infof pair_format [''bool'', ''int'', check_mark]
       \<notin> set (fst (Report [\<lparr>From = ''bool'', To = ''int''\<rparr>] []))"
proof -
  have "accepted (Exited 0)"
    by (simp add: accepted_iff)
  then have "Compile (Exited 0) ''a.go:2: cannot convert p.bool (type bool) to type int''
      = Value [\<lparr>From = ''bool'', To = ''int''\<rparr>]"
    by (simp add: Compile_accepted extraction_eq marker_lines_bool_int_line
        matched_bool_int_line index_def)
  then have "main \<lparr>ParseFiles = Inr [Text ''package main''], create = None,
          now = ''2021-03-04T05:06:07Z'', arg0 = ''./go-conversions'', write_fail = None,
          build = Exited 0,
          stderr = ''a.go:2: cannot convert p.bool (type bool) to type int'',
          elapsed = ''1s''\<rparr>
     = (0, [Info ''starting'']
           @ fst (Report [\<lparr>From = ''bool'', To = ''int''\<rparr>] [])
           @ [Info ''done'', Infof ''execution took %v'' [''1s'']])"
    using Report_append [of "[\<lparr>From = ''bool'', To = ''int''\<rparr>]" "[Info ''starting'']"]
    by (simp add: main_def Main_def Generate_def)
  moreover have "''bool'' \<in> set Primitives" "''int'' \<in> set Primitives"
    by (simp_all add: Primitives_def)
  ultimately show ?thesis
    using marks_differ
      pair_entry_in_Report [of "''bool''" "''int''" cross_mark "[\<lparr>From = ''bool'', To = ''int''\<rparr>]"]
      pair_entry_in_Report [of "''bool''" "''int''" check_mark "[\<lparr>From = ''bool'', To = ''int''\<rparr>]"]
    by (simp add: pair_entry_def compatible_def)
qed

end
